theory Spec2Isabelle
  imports Complex_Main "HOL-Library.Sublist" "HOL-Library.Word"
begin

section \<open>The job record of \<open>JobManager.tsx\<close>\<close>

text \<open>
  The component keeps a list of jobs in React state, seeds it from a one-shot query
  (\<open>fetchJobs\<close>), changes it from a realtime subscription
  (\<open>subscribeToJobUpdates\<close>), and derives three things from a job: a text
  document to download (\<open>handleDownloadResults\<close>), a colour class
  (\<open>getStatusColor\<close>) and a progress value (\<open>getProgressValue\<close>).

  The field \<open>results\<close> has the TypeScript type \<open>any\<close>: every value JavaScript
  can decode from a JSON payload, and \<open>undefined\<close> for a key that is not there.
  A decoded JSON number is a finite double, which is a rational; \<open>NaN\<close> and the
  infinities do not occur in JSON.
\<close>

text \<open>
  A JavaScript string is a sequence of UTF-16 code units; \<open>===\<close>,
  \<open>join\<close> and \<open>trim\<close> work on them. The ids, the log lines and the
  document are such strings. \<open>js\<close> gives the code units of a literal of the
  source, whose characters are ASCII. The fixed texts that the component only shows
  (notifications, class names) stay HOL strings.
\<close>

type_synonym code_unit = "16 word"

type_synonym js_string = "code_unit list"

definition js :: "string \<Rightarrow> js_string" where
  "js s = map of_char s"

datatype any_value =
    Undefined
  | Null
  | Bool bool
  | Num rat
  | Str js_string
  | Arr "any_value list"
  | Obj "(js_string \<times> any_value) list"

text \<open>
  JavaScript's truthiness, which \<open>!job.results\<close> tests: \<open>undefined\<close>,
  \<open>null\<close>, \<open>false\<close>, \<open>0\<close> and the empty string are falsy, every array and
  every object is truthy.
\<close>

fun truthy :: "any_value \<Rightarrow> bool" where
  "truthy Undefined = False"
| "truthy Null = False"
| "truthy (Bool b) = b"
| "truthy (Num n) = (n \<noteq> 0)"
| "truthy (Str s) = (s \<noteq> [])"
| "truthy (Arr xs) = True"
| "truthy (Obj kvs) = True"

text \<open>A value is absent when it is \<open>undefined\<close> or \<open>null\<close>, and present otherwise.\<close>

definition absent :: "any_value \<Rightarrow> bool" where
  "absent v = (v = Undefined \<or> v = Null)"

datatype status = PENDING | RUNNING | COMPLETED | FAILED

text \<open>
  \<open>interface Job\<close>. The code reads \<open>logs\<close> through \<open>?.\<close>, so a job whose
  \<open>logs\<close> is \<open>null\<close> or \<open>undefined\<close> is admitted (\<open>None\<close>);
  \<open>error_message\<close> is declared optional. The field \<open>id\<close> is written
  \<open>id'\<close>, since \<open>id\<close> is the identity function of HOL. A row has
  columns that the interface does not declare (the rendering reads \<open>created_at\<close>);
  the merge and the export do not read them, and they are not part of the record.
\<close>

record Job =
  id' :: js_string
  solver_id :: js_string
  dataset_id :: js_string
  status :: status
  parameters :: "(js_string \<times> any_value) list"
  results :: any_value
  logs :: "js_string list option"
  error_message :: "js_string option"

text \<open>
  \<open>payload.new\<close> of an UPDATE event is spread over the job it matches, so only
  the keys it has count. It is a job with every key optional: \<open>None\<close> is a key
  the payload does not have, \<open>Some v\<close> a key it has with the value \<open>v\<close>.
\<close>

record PartialJob =
  new_id :: "js_string option"
  new_solver_id :: "js_string option"
  new_dataset_id :: "js_string option"
  new_status :: "status option"
  new_parameters :: "(js_string \<times> any_value) list option"
  new_results :: "any_value option"
  new_logs :: "js_string list option option"
  new_error_message :: "js_string option option"

text \<open>
  The payload of a \<open>postgres_changes\<close> event, a union discriminated by
  \<open>eventType\<close>. The subscription listens to \<open>event: '*'\<close>, so DELETE events
  arrive too. The \<open>new\<close> of an INSERT goes into the list as it is, as a
  \<open>Job\<close>.
\<close>

datatype payload = INSERT Job | UPDATE PartialJob | DELETE

section \<open>The merge: \<open>subscribeToJobUpdates\<close>\<close>

text \<open>The object spread \<open>{ ...job, ...payload.new }\<close>: a key of the payload wins.\<close>

definition spread :: "Job \<Rightarrow> PartialJob \<Rightarrow> Job" where
  "spread job new =
     \<lparr> id' = (case new_id new of Some v \<Rightarrow> v | None \<Rightarrow> id' job),
       solver_id = (case new_solver_id new of Some v \<Rightarrow> v | None \<Rightarrow> solver_id job),
       dataset_id = (case new_dataset_id new of Some v \<Rightarrow> v | None \<Rightarrow> dataset_id job),
       status = (case new_status new of Some v \<Rightarrow> v | None \<Rightarrow> status job),
       parameters = (case new_parameters new of Some v \<Rightarrow> v | None \<Rightarrow> parameters job),
       results = (case new_results new of Some v \<Rightarrow> v | None \<Rightarrow> results job),
       logs = (case new_logs new of Some v \<Rightarrow> v | None \<Rightarrow> logs job),
       error_message =
         (case new_error_message new of Some v \<Rightarrow> v | None \<Rightarrow> error_message job) \<rparr>"

text \<open>
  The callback of the subscription, as the function from the previous list to the next
  one that it hands to \<open>setJobs\<close>: an UPDATE maps over the list and spreads the
  payload over every job with \<open>job.id === payload.new.id\<close> (a string is never
  \<open>===\<close> to the \<open>undefined\<close> of a payload without \<open>id\<close>); an INSERT
  puts the payload in front; any other event changes nothing.
\<close>

fun subscribeToJobUpdates :: "payload \<Rightarrow> Job list \<Rightarrow> Job list" where
  "subscribeToJobUpdates (UPDATE new) prevJobs =
     map (\<lambda>job. if Some (id' job) = new_id new then spread job new else job) prevJobs"
| "subscribeToJobUpdates (INSERT new) prevJobs = new # prevJobs"
| "subscribeToJobUpdates DELETE prevJobs = prevJobs"

text \<open>Events applied one after the other, the first of the list first.\<close>

fun apply_events :: "payload list \<Rightarrow> Job list \<Rightarrow> Job list" where
  "apply_events [] jobs = jobs"
| "apply_events (e # es) jobs = apply_events es (subscribeToJobUpdates e jobs)"

text \<open>The id an event is about; an UPDATE without \<open>id\<close> and a DELETE have none.\<close>

fun event_id :: "payload \<Rightarrow> js_string option" where
  "event_id (INSERT new) = Some (id' new)"
| "event_id (UPDATE new) = new_id new"
| "event_id DELETE = None"

section \<open>The snapshot: \<open>fetchJobs\<close>\<close>

text \<open>
  The component's state, with the notifications \<open>toast.error\<close> has shown, oldest
  first.
\<close>

record state =
  jobs :: "Job list"
  isLoading :: bool
  toasts :: "string list"

definition initial :: state where
  "initial = \<lparr> jobs = [], isLoading = True, toasts = [] \<rparr>"

text \<open>
  What the awaited query gives: it rejects, or it resolves to \<open>{ data, error }\<close>
  where \<open>data\<close> may be \<open>null\<close> and \<open>error\<close> is \<open>null\<close> or an error
  object (here its message).
\<close>

datatype response = Rejected | Resolved "Job list option" "string option"

text \<open>
  \<open>fetchJobs\<close> from the moment the query settles. A truthy \<open>error\<close> is thrown
  and caught like a rejection: the \<open>catch\<close> shows a notification and does not
  touch \<open>jobs\<close>. Otherwise \<open>setJobs(data || [])\<close>. The \<open>finally\<close> clears
  \<open>isLoading\<close> on both paths.
\<close>

definition fetchJobs :: "response \<Rightarrow> state \<Rightarrow> state" where
  "fetchJobs r st =
     (let st' =
        (case r of
           Rejected \<Rightarrow> st\<lparr> toasts := toasts st @ [''Failed to fetch jobs''] \<rparr>
         | Resolved data (Some e) \<Rightarrow> st\<lparr> toasts := toasts st @ [''Failed to fetch jobs''] \<rparr>
         | Resolved data None \<Rightarrow>
             st\<lparr> jobs := (case data of Some d \<Rightarrow> d | None \<Rightarrow> []) \<rparr>)
      in st'\<lparr> isLoading := False \<rparr>)"

text \<open>A change event arriving at the component.\<close>

definition on_event :: "payload \<Rightarrow> state \<Rightarrow> state" where
  "on_event e st = st\<lparr> jobs := subscribeToJobUpdates e (jobs st) \<rparr>"

section \<open>The status projections\<close>

fun getStatusColor :: "status \<Rightarrow> string" where
  "getStatusColor COMPLETED = ''bg-green-500''"
| "getStatusColor FAILED = ''bg-red-500''"
| "getStatusColor RUNNING = ''bg-blue-500''"
| "getStatusColor _ = ''bg-gray-500''"

fun getProgressValue :: "status \<Rightarrow> nat" where
  "getProgressValue COMPLETED = 100"
| "getProgressValue FAILED = 100"
| "getProgressValue RUNNING = 50"
| "getProgressValue _ = 0"

section \<open>The export: \<open>handleDownloadResults\<close>\<close>

definition newline :: js_string where
  "newline = [0x000A]"

text \<open>\<open>Array.prototype.join\<close> on an array of strings.\<close>

fun join :: "js_string \<Rightarrow> js_string list \<Rightarrow> js_string" where
  "join sep [] = []"
| "join sep [x] = x"
| "join sep (x # y # ys) = x @ sep @ join sep (y # ys)"

text \<open>
  \<open>String.prototype.trim\<close> removes white space and line terminators from both
  ends. White space is tab, vertical tab, form feed, the byte order mark U+FEFF and the
  space separators of Unicode: space, no-break space U+00A0, U+1680, U+2000 to U+200A,
  U+202F, U+205F and U+3000. The line terminators are line feed, carriage return,
  U+2028 and U+2029. Each of them is one code unit, and none is half of a surrogate
  pair, so trimming code units is trimming code points.
\<close>

definition is_space :: "code_unit \<Rightarrow> bool" where
  "is_space c =
     (c \<in> {0x0009, 0x000A, 0x000B, 0x000C, 0x000D, 0x0020, 0x00A0, 0x1680,
            0x2028, 0x2029, 0x202F, 0x205F, 0x3000, 0xFEFF}
      \<or> (0x2000 \<le> c \<and> c \<le> 0x200A))"

definition trimStart :: "js_string \<Rightarrow> js_string" where
  "trimStart s = dropWhile is_space s"

definition trimEnd :: "js_string \<Rightarrow> js_string" where
  "trimEnd s = rev (dropWhile is_space (rev s))"

definition trim :: "js_string \<Rightarrow> js_string" where
  "trim s = trimEnd (trimStart s)"

text \<open>
  \<open>job.logs?.join('\n') || 'No logs available'\<close>: the placeholder stands in when
  \<open>logs\<close> is \<open>null\<close> or \<open>undefined\<close> and when the joined text is the empty
  string.
\<close>

definition logs_text :: "Job \<Rightarrow> js_string" where
  "logs_text job =
     (case logs job of
        None \<Rightarrow> js ''No logs available''
      | Some ls \<Rightarrow> (if join newline ls = [] then js ''No logs available'' else join newline ls))"

text \<open>
  The template literal before \<open>.trim()\<close>. \<open>JSON.stringify(_, null, 2)\<close> is the
  host's; it is the parameter \<open>stringify\<close>.
\<close>

definition resultsText :: "(any_value \<Rightarrow> js_string) \<Rightarrow> Job \<Rightarrow> js_string" where
  "resultsText stringify job =
     newline @ js ''Optimization Results for Job '' @ id' job @ newline
     @ js ''====================================='' @ newline
     @ newline
     @ js ''Parameters:'' @ newline
     @ stringify (Obj (parameters job)) @ newline
     @ newline
     @ js ''Results:'' @ newline
     @ stringify (results job) @ newline
     @ newline
     @ js ''Logs:'' @ newline
     @ logs_text job @ newline
     @ js ''    ''"

text \<open>What the browser is made to download: the blob's text and type, and the name.\<close>

record download =
  content :: js_string
  mime :: js_string
  filename :: js_string

text \<open>
  The early return, after \<open>toast.error('No results available for this job')\<close>.
\<close>

datatype error = NotExportable

definition handleDownloadResults ::
  "(any_value \<Rightarrow> js_string) \<Rightarrow> Job \<Rightarrow> error + download" where
  "handleDownloadResults stringify job =
     (if \<not> truthy (results job) then Inl NotExportable
      else Inr \<lparr> content = trim (resultsText stringify job),
                 mime = js ''text/plain'',
                 filename = js ''optimization_results_'' @ id' job @ js ''.txt'' \<rparr>)"

section \<open>Concrete jobs and events\<close>

text \<open>A running job, a pending one, and events about them.\<close>

definition job_a :: Job where
  "job_a = \<lparr> id' = js ''a'', solver_id = js ''s1'', dataset_id = js ''d1'', status = RUNNING,
              parameters = [], results = Undefined, logs = Some [js ''started''],
              error_message = None \<rparr>"

definition job_b :: Job where
  "job_b = \<lparr> id' = js ''b'', solver_id = js ''s1'', dataset_id = js ''d2'', status = PENDING,
              parameters = [], results = Undefined, logs = None,
              error_message = None \<rparr>"

text \<open>An UPDATE that mentions only \<open>id\<close> and \<open>status\<close>.\<close>

definition a_completed :: PartialJob where
  "a_completed = \<lparr> new_id = Some (js ''a''), new_solver_id = None, new_dataset_id = None,
                    new_status = Some COMPLETED, new_parameters = None, new_results = None,
                    new_logs = None, new_error_message = None \<rparr>"

text \<open>An UPDATE that mentions only \<open>id\<close> and \<open>logs\<close>.\<close>

definition a_logs :: PartialJob where
  "a_logs = \<lparr> new_id = Some (js ''a''), new_solver_id = None, new_dataset_id = None,
               new_status = None, new_parameters = None, new_results = None,
               new_logs = Some (Some [js ''started'', js ''iteration 1'']),
               new_error_message = None \<rparr>"

text \<open>An UPDATE for an id that no job above has.\<close>

definition z_failed :: PartialJob where
  "z_failed = \<lparr> new_id = Some (js ''z''), new_solver_id = None, new_dataset_id = None,
                 new_status = Some FAILED, new_parameters = None, new_results = None,
                 new_logs = None, new_error_message = Some (Some (js ''infeasible'')) \<rparr>"

text \<open>
  Completed jobs to export. Their \<open>parameters\<close> and \<open>results\<close> are the empty
  object, which \<open>JSON.stringify\<close> renders as \<open>{}\<close>.
\<close>

definition stringify_empty :: "any_value \<Rightarrow> js_string" where
  "stringify_empty v = js ''{}''"

definition job_done :: Job where
  "job_done = \<lparr> id' = js ''d'', solver_id = js ''s1'', dataset_id = js ''d1'', status = COMPLETED,
                 parameters = [], results = Obj [], logs = Some [js ''started'', js ''done''],
                 error_message = None \<rparr>"

definition job_no_logs :: Job where
  "job_no_logs = job_done\<lparr> logs := Some [] \<rparr>"

text \<open>A job whose last log line ends in a space.\<close>

definition job_trailing :: Job where
  "job_trailing = job_done\<lparr> logs := Some [js ''ok ''] \<rparr>"

text \<open>A job whose last log line ends in a no-break space.\<close>

definition job_nbsp :: Job where
  "job_nbsp = job_done\<lparr> logs := Some [js ''ok'' @ [0x00A0]] \<rparr>"

text \<open>Jobs whose \<open>results\<close> is there and falsy: \<open>false\<close>, \<open>0\<close> and the
  empty string.\<close>

definition job_false :: Job where
  "job_false = job_done\<lparr> results := Bool False, logs := Some [] \<rparr>"

definition job_zero :: Job where
  "job_zero = job_done\<lparr> results := Num 0 \<rparr>"

definition job_empty_string :: Job where
  "job_empty_string = job_done\<lparr> results := Str [] \<rparr>"

text \<open>A job without results, still running.\<close>

definition job_running :: Job where
  "job_running = job_done\<lparr> status := RUNNING, results := Null \<rparr>"

section \<open>The snapshot and the collection\<close>

text \<open>
  Claim C1, as the code has it: a snapshot that arrives without error becomes the
  collection, whatever the collection held before (\<open>null\<close> data counts as the
  empty list). Nothing tests whether the collection is empty, so a record inserted
  before the snapshot arrives is kept only if the snapshot contains it.
\<close>

theorem fetchJobs_replaces:
  "jobs (fetchJobs (Resolved data None) st) = (case data of Some d \<Rightarrow> d | None \<Rightarrow> [])"
  by (simp add: fetchJobs_def)

text \<open>
  Claim C1 fails as stated: from the initial state, the INSERT of job \<open>b\<close> puts it
  in the collection, and the snapshot \<open>[a]\<close> that arrives next removes it.
\<close>

theorem snapshot_drops_inserted:
  "job_b \<in> set (jobs (on_event (INSERT job_b) initial)) \<and>
   job_b \<notin> set [job_a] \<and>
   job_b \<notin> set (jobs (fetchJobs (Resolved (Some [job_a]) None) (on_event (INSERT job_b) initial)))"
  by (simp add: fetchJobs_def on_event_def initial_def job_a_def js_def job_b_def)

text \<open>
  Claim C8: when the query rejects, or resolves with an error, \<open>fetchJobs\<close> shows
  the notification \<open>Failed to fetch jobs\<close> and the collection is the one before the
  fetch.
\<close>

theorem fetchJobs_failure_keeps_jobs:
  "jobs (fetchJobs Rejected st) = jobs st \<and>
   toasts (fetchJobs Rejected st) = toasts st @ [''Failed to fetch jobs''] \<and>
   jobs (fetchJobs (Resolved data (Some e)) st) = jobs st \<and>
   toasts (fetchJobs (Resolved data (Some e)) st) = toasts st @ [''Failed to fetch jobs'']"
  by (simp add: fetchJobs_def)

section \<open>INSERT events\<close>

text \<open>
  Claim C2, as the code has it: an INSERT puts the event's record in front of the
  collection and leaves the rest as it was, also when a record with that id is there
  already; the collection then holds one more record with that id than before.
\<close>

theorem insert_always_prepends:
  "subscribeToJobUpdates (INSERT new) prevJobs = new # prevJobs \<and>
   length (filter (\<lambda>job. id' job = id' new) (subscribeToJobUpdates (INSERT new) prevJobs)) =
     Suc (length (filter (\<lambda>job. id' job = id' new) prevJobs))"
  by simp

text \<open>
  Claim C2 fails as stated: an INSERT of job \<open>a\<close> into the collection \<open>[a]\<close>
  gives two records with the id \<open>a\<close>.
\<close>

theorem insert_duplicates:
  "length (filter (\<lambda>job. id' job = js ''a'') (subscribeToJobUpdates (INSERT job_a) [job_a])) = 2"
  by (simp add: job_a_def js_def)

section \<open>UPDATE events\<close>

text \<open>
  Claim C5: an UPDATE whose id is the id of no record of the collection leaves the
  whole state as it was: the same records in the same order, no notification.
\<close>

theorem update_unknown_id:
  assumes "\<forall>job \<in> set (jobs st). Some (id' job) \<noteq> new_id new"
  shows "on_event (UPDATE new) st = st"
  using assms by (simp add: on_event_def map_idI)

theorem update_unknown_id_witness:
  "Some (id' job_a) \<noteq> new_id z_failed \<and> Some (id' job_b) \<noteq> new_id z_failed \<and>
   on_event (UPDATE z_failed) (initial\<lparr> jobs := [job_a, job_b] \<rparr>) = initial\<lparr> jobs := [job_a, job_b] \<rparr>"
proof -
  have h: "\<forall>job \<in> set (jobs (initial\<lparr> jobs := [job_a, job_b] \<rparr>)). Some (id' job) \<noteq> new_id z_failed"
    by (simp add: job_a_def js_def job_b_def z_failed_def)
  show ?thesis
    using h update_unknown_id [OF h] by simp
qed

section \<open>Events for different ids\<close>

lemma id_spread: "new_id new = Some i \<Longrightarrow> id' (spread job new) = i"
  by (simp add: spread_def)

text \<open>
  What an event does to the records of one id: an event about that id acts on them as
  it acts on the whole collection, any other event leaves them as they are.
\<close>

lemma filter_id_step:
  "filter (\<lambda>job. id' job = i) (subscribeToJobUpdates e prevJobs) =
     (if event_id e = Some i then subscribeToJobUpdates e (filter (\<lambda>job. id' job = i) prevJobs)
      else filter (\<lambda>job. id' job = i) prevJobs)"
proof (cases e)
  case (INSERT new)
  then show ?thesis by auto
next
  case (UPDATE new)
  show ?thesis
  proof (cases "new_id new = Some i")
    case True
    with UPDATE show ?thesis
      by (induction prevJobs) (auto simp: id_spread)
  next
    case False
    with UPDATE show ?thesis
      by (induction prevJobs) (auto simp: spread_def split: option.splits)
  qed
next
  case DELETE
  then show ?thesis by simp
qed

lemma filter_id_events:
  "filter (\<lambda>job. id' job = i) (apply_events es prevJobs) =
     apply_events (filter (\<lambda>e. event_id e = Some i) es) (filter (\<lambda>job. id' job = i) prevJobs)"
  by (induction es arbitrary: prevJobs) (simp_all add: filter_id_step)

text \<open>
  Claim C3: take any collection and two sequences of events in which, for every id, the
  events about that id are the same and come in the same order (events about different
  ids may be interleaved differently; an event about no id changes nothing and may stand
  anywhere). Then after either sequence the records with a given id are the same, in the
  same order.
\<close>

theorem per_id_convergence:
  assumes "\<forall>i. filter (\<lambda>e. event_id e = Some i) es1 = filter (\<lambda>e. event_id e = Some i) es2"
  shows "filter (\<lambda>job. id' job = i) (apply_events es1 prevJobs) =
         filter (\<lambda>job. id' job = i) (apply_events es2 prevJobs)"
  using assms by (simp add: filter_id_events)

theorem per_id_convergence_witness:
  "(\<forall>i. filter (\<lambda>e. event_id e = Some i) [INSERT job_a, INSERT job_b, UPDATE a_completed] =
        filter (\<lambda>e. event_id e = Some i) [INSERT job_b, INSERT job_a, UPDATE a_completed]) \<and>
   apply_events [INSERT job_a, INSERT job_b, UPDATE a_completed] [] \<noteq>
   apply_events [INSERT job_b, INSERT job_a, UPDATE a_completed] [] \<and>
   filter (\<lambda>job. id' job = js ''a'') (apply_events [INSERT job_a, INSERT job_b, UPDATE a_completed] []) =
   filter (\<lambda>job. id' job = js ''a'') (apply_events [INSERT job_b, INSERT job_a, UPDATE a_completed] [])"
proof -
  have h: "\<forall>i. filter (\<lambda>e. event_id e = Some i) [INSERT job_a, INSERT job_b, UPDATE a_completed] =
               filter (\<lambda>e. event_id e = Some i) [INSERT job_b, INSERT job_a, UPDATE a_completed]"
    by (simp add: job_a_def js_def job_b_def a_completed_def)
  have d: "apply_events [INSERT job_a, INSERT job_b, UPDATE a_completed] [] \<noteq>
           apply_events [INSERT job_b, INSERT job_a, UPDATE a_completed] []"
    by (simp add: job_a_def js_def job_b_def a_completed_def spread_def)
  show ?thesis
    using h d per_id_convergence [OF h, of "js ''a''" "[]"] by simp
qed

section \<open>The shallow merge of an UPDATE\<close>

text \<open>
  Claim C4: let \<open>R\<close> be the record at any position of the collection and take an
  UPDATE event for the id of \<open>R\<close>. The collection keeps its length, and the record
  at that position afterwards has, for every field, the event's value where the event
  has the field and the value of \<open>R\<close> where it has not. So an event that
  has only \<open>id\<close> and \<open>status\<close> gives \<open>R\<close> with the new status and
  nothing else changed, and a \<open>logs\<close> field of the event becomes the record's
  \<open>logs\<close> as it is, with nothing of the old \<open>logs\<close> kept.
\<close>

theorem update_shallow_merge:
  assumes "n < length prevJobs" and "new_id new = Some (id' (prevJobs ! n))"
  shows "length (subscribeToJobUpdates (UPDATE new) prevJobs) = length prevJobs \<and>
    (let R = prevJobs ! n; R' = subscribeToJobUpdates (UPDATE new) prevJobs ! n in
       id' R' = id' R \<and>
       solver_id R' = (case new_solver_id new of Some v \<Rightarrow> v | None \<Rightarrow> solver_id R) \<and>
       dataset_id R' = (case new_dataset_id new of Some v \<Rightarrow> v | None \<Rightarrow> dataset_id R) \<and>
       status R' = (case new_status new of Some v \<Rightarrow> v | None \<Rightarrow> status R) \<and>
       parameters R' = (case new_parameters new of Some v \<Rightarrow> v | None \<Rightarrow> parameters R) \<and>
       results R' = (case new_results new of Some v \<Rightarrow> v | None \<Rightarrow> results R) \<and>
       logs R' = (case new_logs new of Some v \<Rightarrow> v | None \<Rightarrow> logs R) \<and>
       error_message R' =
         (case new_error_message new of Some v \<Rightarrow> v | None \<Rightarrow> error_message R) \<and>
       (new = \<lparr> new_id = Some (id' R), new_solver_id = None, new_dataset_id = None,
                new_status = Some s, new_parameters = None, new_results = None,
                new_logs = None, new_error_message = None \<rparr>
          \<longrightarrow> R' = R\<lparr> status := s \<rparr>))"
  using assms by (auto simp: Let_def spread_def)

theorem update_shallow_merge_witness:
  "0 < length [job_a, job_b] \<and> new_id a_completed = Some (id' ([job_a, job_b] ! 0)) \<and>
   subscribeToJobUpdates (UPDATE a_completed) [job_a, job_b] ! 0 = job_a\<lparr> status := COMPLETED \<rparr> \<and>
   new_id a_logs = Some (id' ([job_a, job_b] ! 0)) \<and>
   logs job_a = Some [js ''started''] \<and>
   logs (subscribeToJobUpdates (UPDATE a_logs) [job_a, job_b] ! 0) = Some [js ''started'', js ''iteration 1''] \<and>
   status (subscribeToJobUpdates (UPDATE a_logs) [job_a, job_b] ! 0) = status job_a"
proof -
  have n: "0 < length [job_a, job_b]"
    by simp
  have s: "new_id a_completed = Some (id' ([job_a, job_b] ! 0))"
    by (simp add: a_completed_def job_a_def js_def)
  have l: "new_id a_logs = Some (id' ([job_a, job_b] ! 0))"
    by (simp add: a_logs_def job_a_def js_def)
  have "subscribeToJobUpdates (UPDATE a_completed) [job_a, job_b] ! 0 = job_a\<lparr> status := COMPLETED \<rparr>"
    using update_shallow_merge [OF n s, of COMPLETED]
    by (simp add: Let_def a_completed_def job_a_def js_def)
  moreover have "logs (subscribeToJobUpdates (UPDATE a_logs) [job_a, job_b] ! 0) = Some [js ''started'', js ''iteration 1''] \<and>
      status (subscribeToJobUpdates (UPDATE a_logs) [job_a, job_b] ! 0) = status job_a"
    using update_shallow_merge [OF n l]
    by (simp add: js_def Let_def a_logs_def)
  moreover have "logs job_a = Some [js ''started'']"
    by (simp add: job_a_def js_def)
  ultimately show ?thesis
    using n s l by simp
qed

section \<open>The status projections on the four statuses\<close>

text \<open>
  Claim C7: the two projections are total on the four statuses. PENDING gives the
  progress 0 and the grey class (neutral), RUNNING 50 and the blue class (active),
  COMPLETED 100 and the green class (success), FAILED 100 and the red class (danger);
  COMPLETED and FAILED have the same progress and different colours.
\<close>

theorem status_projection:
  "getProgressValue PENDING = 0 \<and> getStatusColor PENDING = ''bg-gray-500'' \<and>
   getProgressValue RUNNING = 50 \<and> getStatusColor RUNNING = ''bg-blue-500'' \<and>
   getProgressValue COMPLETED = 100 \<and> getStatusColor COMPLETED = ''bg-green-500'' \<and>
   getProgressValue FAILED = 100 \<and> getStatusColor FAILED = ''bg-red-500'' \<and>
   getProgressValue COMPLETED = getProgressValue FAILED \<and>
   getStatusColor COMPLETED \<noteq> getStatusColor FAILED"
  by simp

section \<open>The export\<close>

lemma absent_not_truthy: "absent v \<Longrightarrow> \<not> truthy v"
  by (auto simp: absent_def)

lemma trimEnd_keep: "\<not> is_space c \<Longrightarrow> trimEnd (xs @ c # zs) = xs @ c # trimEnd zs"
  by (simp add: trimEnd_def dropWhile_append)

lemma trimEnd_drop: "\<forall>c \<in> set zs. is_space c \<Longrightarrow> trimEnd (xs @ zs) = trimEnd xs"
  by (simp add: trimEnd_def dropWhile_append)

lemma trimEnd_last: "xs \<noteq> [] \<Longrightarrow> \<not> is_space (last xs) \<Longrightarrow> trimEnd xs = xs"
  using trimEnd_keep [of "last xs" "butlast xs" "[]"] by (simp add: trimEnd_def)

lemma logs_text_not_empty: "logs_text job \<noteq> []"
  by (simp add: logs_text_def js_def split: option.splits)

text \<open>
  The trimmed text: the line feed in front goes, and so does everything from the end
  back to the last character that is not white space, which is the colon of
  \<open>Logs:\<close> at the earliest.
\<close>

lemma trim_resultsText:
  "trim (resultsText stringify job) =
     js ''Optimization Results for Job '' @ id' job @ newline
     @ js ''====================================='' @ newline
     @ newline
     @ js ''Parameters:'' @ newline
     @ stringify (Obj (parameters job)) @ newline
     @ newline
     @ js ''Results:'' @ newline
     @ stringify (results job) @ newline
     @ newline
     @ js ''Logs:'' @ trimEnd (newline @ logs_text job)"
proof -
  let ?A = "js ''Optimization Results for Job '' @ id' job @ newline
     @ js ''====================================='' @ newline
     @ newline
     @ js ''Parameters:'' @ newline
     @ stringify (Obj (parameters job)) @ newline
     @ newline
     @ js ''Results:'' @ newline
     @ stringify (results job) @ newline
     @ newline
     @ js ''Logs''"
  let ?L = "newline @ logs_text job"
  have start: "trimStart (resultsText stringify job) = ?A @ 0x003A # (?L @ (newline @ js ''    ''))"
    by (simp add: resultsText_def trimStart_def newline_def is_space_def js_def)
  have "trimEnd (?A @ 0x003A # (?L @ (newline @ js ''    ''))) =
      ?A @ 0x003A # trimEnd (?L @ (newline @ js ''    ''))"
    by (rule trimEnd_keep) (simp add: is_space_def js_def)
  also have "trimEnd (?L @ (newline @ js ''    '')) = trimEnd ?L"
    by (rule trimEnd_drop) (simp add: is_space_def js_def newline_def)
  finally have "trimEnd (trimStart (resultsText stringify job)) =
      ?A @ 0x003A # trimEnd ?L"
    by (simp only: start)
  moreover have "js ''Logs'' @ [0x003A] = js ''Logs:''"
    by (simp add: js_def)
  ultimately show ?thesis
    by (simp add: trim_def)
qed

lemma trimEnd_logs:
  "\<not> is_space (last (logs_text job)) \<Longrightarrow>
   trimEnd (newline @ logs_text job) = newline @ logs_text job"
  by (rule trimEnd_last) (simp_all add: logs_text_not_empty)

lemma logs_text_placeholder:
  "logs job = None \<or> logs job = Some [] \<Longrightarrow> logs_text job = js ''No logs available''"
  by (auto simp: logs_text_def)

text \<open>
  Claim C6, as the code has it: the export fails with \<open>NotExportable\<close> whenever
  \<open>results\<close> is absent (\<open>undefined\<close> or \<open>null\<close>); when \<open>results\<close> is
  truthy and \<open>logs\<close> is empty or absent, it produces a document, and the document
  contains \<open>No logs available\<close>.
\<close>

theorem export_placeholder:
  "(absent (results job) \<longrightarrow> handleDownloadResults stringify job = Inl NotExportable) \<and>
   (truthy (results job) \<and> (logs job = None \<or> logs job = Some []) \<longrightarrow>
      (\<exists>d. handleDownloadResults stringify job = Inr d \<and>
           sublist (js ''No logs available'') (content d)))"
proof (intro conjI impI)
  assume "absent (results job)"
  then show "handleDownloadResults stringify job = Inl NotExportable"
    by (simp add: handleDownloadResults_def absent_not_truthy)
next
  assume a: "truthy (results job) \<and> (logs job = None \<or> logs job = Some [])"
  then have p: "logs_text job = js ''No logs available''"
    by (simp add: logs_text_placeholder)
  have "\<not> is_space (last (logs_text job))"
    by (simp add: p is_space_def js_def)
  then have "trimEnd (newline @ logs_text job) = newline @ logs_text job"
    by (rule trimEnd_logs)
  then have "\<exists>ps. trim (resultsText stringify job) = ps @ logs_text job"
    by (simp add: trim_resultsText del: append_assoc add: append_assoc [symmetric])
  then obtain ps where "trim (resultsText stringify job) = ps @ logs_text job" ..
  then have "sublist (logs_text job) (trim (resultsText stringify job))"
    by (simp only: sublist_append_leftI)
  with a p show "\<exists>d. handleDownloadResults stringify job = Inr d \<and>
      sublist (js ''No logs available'') (content d)"
    by (simp add: handleDownloadResults_def)
qed

theorem export_placeholder_witness:
  "absent (results job_running) \<and>
   handleDownloadResults stringify_empty job_running = Inl NotExportable \<and>
   truthy (results job_no_logs) \<and> logs job_no_logs = Some [] \<and>
   (\<exists>d. handleDownloadResults stringify_empty job_no_logs = Inr d \<and>
        sublist (js ''No logs available'') (content d))"
proof -
  have r: "absent (results job_running)"
    by (simp add: job_running_def job_done_def absent_def)
  have n: "truthy (results job_no_logs) \<and> (logs job_no_logs = None \<or> logs job_no_logs = Some [])"
    by (simp add: job_no_logs_def job_done_def)
  show ?thesis
    using r n export_placeholder [of job_running stringify_empty]
      export_placeholder [of job_no_logs stringify_empty]
    by (simp add: job_no_logs_def)
qed

text \<open>
  Claim C6 fails as stated: a job whose \<open>results\<close> is \<open>false\<close> has results that
  are not absent, and with empty \<open>logs\<close> the export still fails and produces no
  document.
\<close>

theorem export_refuses_false:
  "\<not> absent (results job_false) \<and> logs job_false = Some [] \<and>
   handleDownloadResults stringify_empty job_false = Inl NotExportable"
  by (simp add: job_false_def job_done_def absent_def handleDownloadResults_def)

text \<open>
  Claim C9, as the code has it: for every job with truthy \<open>results\<close> the export
  produces a download that the job alone determines. Its text is, in this order, the
  header with the job id, the rule, the serialized parameters, the serialized results and
  the log text, with white space at the end of the text removed; the log text is the
  placeholder when \<open>logs\<close> is absent or joins to the empty string, and the logs
  joined by line feeds otherwise. When the log text does not end in white space it
  stands in the document whole. The download is named
  \<open>optimization_results_<id>.txt\<close>.
\<close>

theorem export_document:
  assumes "truthy (results job)"
  shows "handleDownloadResults stringify job =
     Inr \<lparr> content =
             js ''Optimization Results for Job '' @ id' job @ newline
             @ js ''====================================='' @ newline
             @ newline
             @ js ''Parameters:'' @ newline
             @ stringify (Obj (parameters job)) @ newline
             @ newline
             @ js ''Results:'' @ newline
             @ stringify (results job) @ newline
             @ newline
             @ js ''Logs:'' @ trimEnd (newline @ logs_text job),
           mime = js ''text/plain'',
           filename = js ''optimization_results_'' @ id' job @ js ''.txt'' \<rparr> \<and>
    logs_text job =
      (case logs job of
         None \<Rightarrow> js ''No logs available''
       | Some ls \<Rightarrow> if join newline ls = [] then js ''No logs available'' else join newline ls) \<and>
    (\<not> is_space (last (logs_text job)) \<longrightarrow>
       trimEnd (newline @ logs_text job) = newline @ logs_text job)"
proof (intro conjI)
  show "handleDownloadResults stringify job =
     Inr \<lparr> content =
             js ''Optimization Results for Job '' @ id' job @ newline
             @ js ''====================================='' @ newline
             @ newline
             @ js ''Parameters:'' @ newline
             @ stringify (Obj (parameters job)) @ newline
             @ newline
             @ js ''Results:'' @ newline
             @ stringify (results job) @ newline
             @ newline
             @ js ''Logs:'' @ trimEnd (newline @ logs_text job),
           mime = js ''text/plain'',
           filename = js ''optimization_results_'' @ id' job @ js ''.txt'' \<rparr>"
    using assms by (simp add: handleDownloadResults_def trim_resultsText)
  show "logs_text job =
      (case logs job of
         None \<Rightarrow> js ''No logs available''
       | Some ls \<Rightarrow> if join newline ls = [] then js ''No logs available'' else join newline ls)"
    by (simp add: logs_text_def)
  show "\<not> is_space (last (logs_text job)) \<longrightarrow>
       trimEnd (newline @ logs_text job) = newline @ logs_text job"
    by (simp add: trimEnd_logs)
qed

theorem export_document_witness:
  "truthy (results job_done) \<and>
   handleDownloadResults stringify_empty job_done =
     Inr \<lparr> content =
             js ''Optimization Results for Job d'' @ newline
             @ js ''====================================='' @ newline
             @ newline
             @ js ''Parameters:'' @ newline
             @ js ''{}'' @ newline
             @ newline
             @ js ''Results:'' @ newline
             @ js ''{}'' @ newline
             @ newline
             @ js ''Logs:'' @ newline
             @ js ''started'' @ newline
             @ js ''done'',
           mime = js ''text/plain'',
           filename = js ''optimization_results_d.txt'' \<rparr> \<and>
   truthy (results job_nbsp) \<and>
   content (projr (handleDownloadResults stringify_empty job_nbsp)) =
     js ''Optimization Results for Job d'' @ newline
     @ js ''====================================='' @ newline
     @ newline
     @ js ''Parameters:'' @ newline
     @ js ''{}'' @ newline
     @ newline
     @ js ''Results:'' @ newline
     @ js ''{}'' @ newline
     @ newline
     @ js ''Logs:'' @ newline
     @ js ''ok''"
proof -
  have t: "truthy (results job_done)"
    by (simp add: job_done_def js_def)
  have n: "truthy (results job_nbsp)"
    by (simp add: job_nbsp_def job_done_def)
  have "handleDownloadResults stringify_empty job_done =
     Inr \<lparr> content =
             js ''Optimization Results for Job d'' @ newline
             @ js ''====================================='' @ newline
             @ newline
             @ js ''Parameters:'' @ newline
             @ js ''{}'' @ newline
             @ newline
             @ js ''Results:'' @ newline
             @ js ''{}'' @ newline
             @ newline
             @ js ''Logs:'' @ newline
             @ js ''started'' @ newline
             @ js ''done'',
           mime = js ''text/plain'',
           filename = js ''optimization_results_d.txt'' \<rparr>"
    using export_document [OF t, of stringify_empty]
    by (simp add: job_done_def stringify_empty_def logs_text_def newline_def
        trimEnd_def is_space_def js_def)
  moreover have "content (projr (handleDownloadResults stringify_empty job_nbsp)) =
     js ''Optimization Results for Job d'' @ newline
     @ js ''====================================='' @ newline
     @ newline
     @ js ''Parameters:'' @ newline
     @ js ''{}'' @ newline
     @ newline
     @ js ''Results:'' @ newline
     @ js ''{}'' @ newline
     @ newline
     @ js ''Logs:'' @ newline
     @ js ''ok''"
    using export_document [OF n, of stringify_empty]
    by (simp add: job_nbsp_def job_done_def stringify_empty_def logs_text_def newline_def
        trimEnd_def is_space_def js_def)
  ultimately show ?thesis
    using t n by simp
qed

text \<open>
  Claim C9 fails as stated: for a job whose only log line is \<open>ok\<close> followed by a
  space, the export produces a document in which the joined logs occur nowhere (the
  space at the end is trimmed away); and for a job whose \<open>results\<close> is the empty
  string, which is not absent, it produces no document.
\<close>

theorem export_trims_logs:
  "truthy (results job_trailing) \<and> logs job_trailing = Some [js ''ok ''] \<and>
   (case handleDownloadResults stringify_empty job_trailing of
      Inl e \<Rightarrow> False
    | Inr d \<Rightarrow> \<not> sublist (join newline [js ''ok '']) (content d)) \<and>
   \<not> absent (results job_empty_string) \<and>
   handleDownloadResults stringify_empty job_empty_string = Inl NotExportable"
  by (simp add: handleDownloadResults_def job_trailing_def job_empty_string_def job_done_def
      stringify_empty_def absent_def trim_def trimStart_def trimEnd_def resultsText_def
      newline_def is_space_def js_def logs_text_def sublist_Cons_right)

text \<open>
  Claim C10, as the code has it: the only gate of the export is the truthiness of
  \<open>results\<close>. The export does not read \<open>status\<close>: a job exports as it does
  with any other status. It produces a document exactly when \<open>results\<close> is
  truthy, and fails with \<open>NotExportable\<close> otherwise.
\<close>

theorem export_gate:
  "handleDownloadResults stringify (job\<lparr> status := s \<rparr>) = handleDownloadResults stringify job \<and>
   ((\<exists>d. handleDownloadResults stringify job = Inr d) \<longleftrightarrow> truthy (results job)) \<and>
   (handleDownloadResults stringify job = Inl NotExportable \<longleftrightarrow> \<not> truthy (results job))"
  by (simp add: handleDownloadResults_def resultsText_def logs_text_def)

text \<open>
  Claim C10 fails as stated: a completed job whose \<open>results\<close> is the number
  \<open>0\<close> has results that are neither \<open>undefined\<close> nor \<open>null\<close>, and the
  export fails.
\<close>

theorem export_refuses_zero:
  "\<not> absent (results job_zero) \<and> status job_zero = COMPLETED \<and>
   handleDownloadResults stringify_empty job_zero = Inl NotExportable"
  by (simp add: job_zero_def job_done_def absent_def handleDownloadResults_def)

end
